theory Spec2Isabelle
  imports Main
begin

section \<open>The API client (services/api)\<close>

text \<open>
  Values produced by \<^verbatim>\<open>response.json()\<close>. An object is the list of its own
  properties (after parsing the keys are distinct); numbers are kept as integers, since the
  client only ever tests a number for being zero.
\<close>

datatype json =
    JNull
  | JBool bool
  | JNum int
  | JStr string
  | JArr "json list"
  | JObj "(string \<times> json) list"

text \<open>
  What a rejected promise carries. \<open>Error v\<close> is \<^verbatim>\<open>new Error(v)\<close>: the argument the
  constructor was given (its message is that value converted to a string, the value itself
  when it is a string). An \<^verbatim>\<open>Error\<close> object has a message and nothing else: there is
  no field for a machine-readable code. \<open>SyntaxError\<close> is what \<^verbatim>\<open>response.json()\<close>
  rejects with on a body that is not JSON, \<open>TypeError\<close> a property read on
  \<^verbatim>\<open>null\<close>, \<open>NetworkError\<close> a rejected \<^verbatim>\<open>fetch\<close>.
\<close>

datatype error = Error json | TypeError | SyntaxError | NetworkError

text \<open>
  A response as the client observes it: the \<^verbatim>\<open>ok\<close> flag (status in 200..299), what
  \<^verbatim>\<open>json()\<close> resolves with (\<open>None\<close> when the body does not parse) and what
  \<^verbatim>\<open>blob()\<close> resolves with (the raw payload).
\<close>

record Response =
  ok :: bool
  json_body :: "json option"
  blob_body :: string

text \<open>\<^verbatim>\<open>RequestInit\<close>, with the three members the client sets.\<close>

record RequestInit =
  http_method :: "string option"
  body :: "string option"
  headers :: "(string \<rightharpoonup> string) option"

text \<open>What \<^verbatim>\<open>apiRequest\<close> resolves with: a blob, or \<^verbatim>\<open>data.data\<close> (\<open>None\<close> is
  \<^verbatim>\<open>undefined\<close>).\<close>

datatype payload = Blob string | Data "json option"

definition API_BASE_URL :: string where
  "API_BASE_URL = ''http://localhost:5000/api''"

text \<open>
  A property read \<^verbatim>\<open>v.name\<close>, for the names the client reads (\<^verbatim>\<open>error\<close>,
  \<^verbatim>\<open>message\<close>, \<^verbatim>\<open>data\<close>; none of them is inherited by a primitive or an array):
  it throws on \<^verbatim>\<open>null\<close>, gives the own property of an object, and \<^verbatim>\<open>undefined\<close>
  otherwise.
\<close>

fun getProp :: "json \<Rightarrow> string \<Rightarrow> error + json option" where
  "getProp JNull name = Inl TypeError"
| "getProp (JObj kvs) name = Inr (map_of kvs name)"
| "getProp v name = Inr None"

text \<open>The optional read \<^verbatim>\<open>v?.name\<close> on a value that may be \<^verbatim>\<open>undefined\<close>.\<close>

fun getPropOpt :: "json option \<Rightarrow> string \<Rightarrow> json option" where
  "getPropOpt None name = None"
| "getPropOpt (Some JNull) name = None"
| "getPropOpt (Some (JObj kvs)) name = map_of kvs name"
| "getPropOpt (Some v) name = None"

text \<open>JavaScript truthiness of a value that may be \<^verbatim>\<open>undefined\<close>.\<close>

fun truthy :: "json option \<Rightarrow> bool" where
  "truthy None = False"
| "truthy (Some JNull) = False"
| "truthy (Some (JBool b)) = b"
| "truthy (Some (JNum n)) = (n \<noteq> 0)"
| "truthy (Some (JStr s)) = (s \<noteq> [])"
| "truthy (Some v) = True"

text \<open>\<^verbatim>\<open>x || fallback\<close> for a string fallback.\<close>

definition orElse :: "json option \<Rightarrow> string \<Rightarrow> json" where
  "orElse x fallback = (if truthy x then the x else JStr fallback)"

text \<open>\<^verbatim>\<open>if (token)\<close>: a stored token counts when it is a non-empty string.\<close>

fun hasToken :: "string option \<Rightarrow> bool" where
  "hasToken None = False"
| "hasToken (Some t) = (t \<noteq> [])"

text \<open>The headers sent: the content type, overridden by the caller's headers, then the
  bearer token when there is one.\<close>

definition requestHeaders :: "string option \<Rightarrow> RequestInit \<Rightarrow> (string \<rightharpoonup> string)" where
  "requestHeaders token options =
     (let headers = [''Content-Type'' \<mapsto> ''application/json''] ++
                    (case headers options of None \<Rightarrow> Map.empty | Some h \<Rightarrow> h)
      in if hasToken token
         then headers(''Authorization'' \<mapsto> ''Bearer '' @ the token)
         else headers)"

text \<open>The test that selects the binary path: \<^verbatim>\<open>options.headers\<close> is set and its
  \<^verbatim>\<open>Accept\<close> entry is exactly \<^verbatim>\<open>application/octet-stream\<close>.\<close>

definition acceptsOctetStream :: "RequestInit \<Rightarrow> bool" where
  "acceptsOctetStream options =
     (case headers options of
        None \<Rightarrow> False
      | Some h \<Rightarrow> h ''Accept'' = Some ''application/octet-stream'')"

text \<open>
  \<^verbatim>\<open>apiRequest(endpoint, options)\<close>. The network is the parameter \<open>fetch\<close>, from the
  URL and the request to a rejection or a response; \<open>token\<close> is what
  \<^verbatim>\<open>localStorage.getItem('token')\<close> returns. The order is the source's: the binary test
  comes before the body is parsed and before the status is looked at, and the body is parsed
  before the status is looked at.
\<close>

definition apiRequest ::
  "(string \<Rightarrow> RequestInit \<Rightarrow> error + Response) \<Rightarrow> string option \<Rightarrow> string \<Rightarrow> RequestInit
     \<Rightarrow> error + payload" where
  "apiRequest fetch token endpoint options =
     (case fetch (API_BASE_URL @ endpoint)
                 (options\<lparr>headers := Some (requestHeaders token options)\<rparr>) of
        Inl e \<Rightarrow> Inl e
      | Inr response \<Rightarrow>
          if acceptsOctetStream options then Inr (Blob (blob_body response))
          else (case json_body response of
                  None \<Rightarrow> Inl SyntaxError
                | Some data \<Rightarrow>
                    if \<not> ok response then
                      (case getProp data ''error'' of
                         Inl e \<Rightarrow> Inl e
                       | Inr err \<Rightarrow> Inl (Error (orElse (getPropOpt err ''message'') ''Request failed'')))
                    else
                      (case getProp data ''data'' of
                         Inl e \<Rightarrow> Inl e
                       | Inr d \<Rightarrow> Inr (Data d))))"

text \<open>The error envelope of the server: \<^verbatim>\<open>{ success: false, error: { code, message } }\<close>.\<close>

definition ApiError :: "string \<Rightarrow> string \<Rightarrow> json" where
  "ApiError code message =
     JObj [(''success'', JBool False),
           (''error'', JObj [(''code'', JStr code), (''message'', JStr message)])]"

section \<open>Projects and tasks\<close>

datatype TaskStatus = TODO | IN_PROGRESS | DONE

datatype Priority = LOW | MEDIUM | HIGH

text \<open>
  A property value at run time. The interfaces give \<^verbatim>\<open>string | null\<close> to some members
  of a task, but the object spread of an update copies every own property of the update,
  also one whose value is \<^verbatim>\<open>undefined\<close>, so each updatable member can hold
  \<^verbatim>\<open>undefined\<close>, \<^verbatim>\<open>null\<close> or a value.
\<close>

datatype 'a slot = Undefined | Null | Val 'a

record Assignee =
  assignee_id :: string
  assignee_name :: string
  assignee_email :: string

record Task =
  task_id :: string
  projectId :: string
  title :: "string slot"
  description :: "string slot"
  status :: "TaskStatus slot"
  priority :: "Priority slot"
  assignedTo :: "string slot"
  dueDate :: "string slot"
  createdAt :: string
  assignee :: "Assignee option"

text \<open>\<^verbatim>\<open>UpdateTaskData\<close>: every member is optional. \<open>None\<close> is an absent key,
  \<open>Some v\<close> a key that is present with the value \<open>v\<close> (\<^verbatim>\<open>handleEditSave\<close>
  passes \<^verbatim>\<open>description: editTaskDescription || undefined\<close>, a present key that may
  hold \<^verbatim>\<open>undefined\<close>). The members carry the prefix \<open>upd_\<close> to keep them apart from
  those of a task.\<close>

record UpdateTaskData =
  upd_title :: "string slot option"
  upd_description :: "string slot option"
  upd_status :: "TaskStatus slot option"
  upd_priority :: "Priority slot option"
  upd_assignedTo :: "string slot option"
  upd_dueDate :: "string slot option"

record ProjectDetail =
  project_id :: string
  project_name :: string
  project_description :: "string option"
  ownerId :: string
  project_createdAt :: string
  tasks :: "Task list"

text \<open>One member of the spread \<^verbatim>\<open>{ ...task, ...data }\<close>: the update's value when the
  key is present, the task's otherwise.\<close>

definition spreadProp :: "'a slot \<Rightarrow> 'a slot option \<Rightarrow> 'a slot" where
  "spreadProp old new = (case new of None \<Rightarrow> old | Some v \<Rightarrow> v)"

text \<open>\<^verbatim>\<open>{ ...task, ...data }\<close>.\<close>

definition spreadTask :: "Task \<Rightarrow> UpdateTaskData \<Rightarrow> Task" where
  "spreadTask task data =
     task\<lparr>title := spreadProp (title task) (upd_title data),
          description := spreadProp (description task) (upd_description data),
          status := spreadProp (status task) (upd_status data),
          priority := spreadProp (priority task) (upd_priority data),
          assignedTo := spreadProp (assignedTo task) (upd_assignedTo data),
          dueDate := spreadProp (dueDate task) (upd_dueDate data)\<rparr>"

text \<open>The updater that \<^verbatim>\<open>onMutate\<close> passes to \<^verbatim>\<open>setQueryData\<close>: an absent value
  is returned as it is, otherwise the tasks with the id \<open>taskId\<close> get the update.\<close>

definition patchProject :: "string \<Rightarrow> UpdateTaskData \<Rightarrow> ProjectDetail option \<Rightarrow> ProjectDetail option" where
  "patchProject taskId data old =
     (case old of
        None \<Rightarrow> None
      | Some p \<Rightarrow>
          Some (p\<lparr>tasks := map (\<lambda>task. if task_id task = taskId then spreadTask task data else task)
                                 (tasks p)\<rparr>))"

section \<open>The query cache\<close>

text \<open>
  The query client is the library's (TanStack Query 5); the page uses four of its
  operations. The cache holds one query per key; of a query's state the page's code
  depends on the cached data (\<open>None\<close> is \<^verbatim>\<open>undefined\<close>) and on the invalidation
  flag. Refetches in flight are not part of this state, so \<^verbatim>\<open>cancelQueries\<close>, which
  acts on them only, leaves it as it is.
\<close>

record 'v QueryState =
  data :: "'v option"
  isInvalidated :: bool

type_synonym ('k, 'v) QueryCache = "'k \<rightharpoonup> 'v QueryState"

text \<open>\<^verbatim>\<open>getQueryData(key)\<close>: the data of the query, \<^verbatim>\<open>undefined\<close> when there is no
  such query.\<close>

definition getQueryData :: "('k, 'v) QueryCache \<Rightarrow> 'k \<Rightarrow> 'v option" where
  "getQueryData cache key = (case cache key of None \<Rightarrow> None | Some q \<Rightarrow> data q)"

text \<open>\<^verbatim>\<open>setQueryData(key, updater)\<close>: the updater gets the current data; when it returns
  \<^verbatim>\<open>undefined\<close> nothing is written, otherwise the query (built if missing) takes the
  new data and is no longer invalidated.\<close>

definition setQueryData ::
  "('k, 'v) QueryCache \<Rightarrow> 'k \<Rightarrow> ('v option \<Rightarrow> 'v option) \<Rightarrow> ('k, 'v) QueryCache" where
  "setQueryData cache key updater =
     (case updater (getQueryData cache key) of
        None \<Rightarrow> cache
      | Some v \<Rightarrow> cache(key \<mapsto> \<lparr>data = Some v, isInvalidated = False\<rparr>))"

text \<open>\<^verbatim>\<open>invalidateQueries({ queryKey })\<close>: the query with this key, when there is one,
  is marked invalidated and keeps its data.\<close>

definition invalidateQueries :: "('k, 'v) QueryCache \<Rightarrow> 'k \<Rightarrow> ('k, 'v) QueryCache" where
  "invalidateQueries cache key =
     (case cache key of
        None \<Rightarrow> cache
      | Some q \<Rightarrow> cache(key \<mapsto> q\<lparr>isInvalidated := True\<rparr>))"

definition cancelQueries :: "('k, 'v) QueryCache \<Rightarrow> 'k \<Rightarrow> ('k, 'v) QueryCache" where
  "cancelQueries cache key = cache"

section \<open>The task update mutation (project detail page)\<close>

text \<open>The query key \<^verbatim>\<open>['project', id]\<close>; the route parameter \<^verbatim>\<open>id\<close> (here \<open>pid\<close>) may be
  \<^verbatim>\<open>undefined\<close>.\<close>

type_synonym QueryKey = "string \<times> string option"

definition projectKey :: "string option \<Rightarrow> QueryKey" where
  "projectKey pid = (''project'', pid)"

text \<open>The variables of the mutation, \<^verbatim>\<open>{ taskId, data }\<close>; the member
  \<^verbatim>\<open>data\<close> is \<open>update\<close> here.\<close>

record UpdateVars =
  taskId :: string
  update :: UpdateTaskData

text \<open>The context \<^verbatim>\<open>{ previousProject }\<close> that \<^verbatim>\<open>onMutate\<close> returns.\<close>

record MutationContext =
  previousProject :: "ProjectDetail option"

text \<open>\<^verbatim>\<open>onMutate\<close>: cancel refetches, take the snapshot, write the patched project,
  return the snapshot. The only \<^verbatim>\<open>await\<close> is the one of \<^verbatim>\<open>cancelQueries\<close>, at the
  start: the snapshot and the write after it run in one piece, and the library calls
  \<^verbatim>\<open>taskApi.update\<close> only after \<^verbatim>\<open>onMutate\<close> has returned.\<close>

definition onMutate ::
  "string option \<Rightarrow> (QueryKey, ProjectDetail) QueryCache \<Rightarrow> UpdateVars
     \<Rightarrow> (QueryKey, ProjectDetail) QueryCache \<times> MutationContext" where
  "onMutate pid cache vars =
     (let cache1 = cancelQueries cache (projectKey pid);
          previous = getQueryData cache1 (projectKey pid);
          cache2 = setQueryData cache1 (projectKey pid) (patchProject (taskId vars) (update vars))
      in (cache2, \<lparr>previousProject = previous\<rparr>))"

text \<open>\<^verbatim>\<open>onError\<close>: when the context holds a snapshot, write it back. The context itself
  is \<^verbatim>\<open>undefined\<close> (\<open>None\<close>) when \<^verbatim>\<open>onMutate\<close> did not return.\<close>

definition onError ::
  "string option \<Rightarrow> (QueryKey, ProjectDetail) QueryCache \<Rightarrow> MutationContext option
     \<Rightarrow> (QueryKey, ProjectDetail) QueryCache" where
  "onError pid cache context =
     (case context of
        None \<Rightarrow> cache
      | Some ctx \<Rightarrow>
          (case previousProject ctx of
             None \<Rightarrow> cache
           | Some previous \<Rightarrow> setQueryData cache (projectKey pid) (\<lambda>_. Some previous)))"

text \<open>\<^verbatim>\<open>onSettled\<close>: invalidate the project's key.\<close>

definition onSettled ::
  "string option \<Rightarrow> (QueryKey, ProjectDetail) QueryCache \<Rightarrow> (QueryKey, ProjectDetail) QueryCache" where
  "onSettled pid cache = invalidateQueries cache (projectKey pid)"

text \<open>
  One mutation from \<^verbatim>\<open>mutate\<close> to the end, as the library runs the callbacks:
  \<^verbatim>\<open>onMutate\<close>, the server call, then \<^verbatim>\<open>onSettled\<close> when the call succeeded and
  \<^verbatim>\<open>onError\<close> followed by \<^verbatim>\<open>onSettled\<close> when it failed. \<open>callFails\<close> is the
  outcome of \<^verbatim>\<open>taskApi.update\<close>.
\<close>

definition runUpdateTask ::
  "string option \<Rightarrow> (QueryKey, ProjectDetail) QueryCache \<Rightarrow> UpdateVars \<Rightarrow> bool
     \<Rightarrow> (QueryKey, ProjectDetail) QueryCache" where
  "runUpdateTask pid cache vars callFails =
     (case onMutate pid cache vars of
        (cache1, context) \<Rightarrow>
          if callFails then onSettled pid (onError pid cache1 (Some context))
          else onSettled pid cache1)"

section \<open>The export watcher (project detail page)\<close>

datatype ExportStatusValue = PENDING | PROCESSING | COMPLETED | FAILED

text \<open>
  What \<^verbatim>\<open>createExportMutation.onSuccess\<close> sets up, for one \<^verbatim>\<open>exportId\<close>:
  \<^item> \<open>timerActive\<close>: the interval \<^verbatim>\<open>pollInterval\<close> has not been cleared;
  \<^item> \<open>pending\<close>: the \<^verbatim>\<open>exportApi.getStatus\<close> calls that have not settled yet;
  \<^item> \<open>downloading\<close>: the \<^verbatim>\<open>exportApi.download\<close> calls that have not settled yet;
  \<^item> \<open>isExporting\<close>: the page's state of that name;
  \<^item> \<open>polls\<close>, \<open>downloads\<close>, \<open>alerts\<close>, \<open>consoleErrors\<close>: how many times
    \<^verbatim>\<open>getStatus\<close>, \<^verbatim>\<open>download\<close>, \<^verbatim>\<open>alert\<close> and \<^verbatim>\<open>console.error\<close> have
    been called.
\<close>

record Watcher =
  timerActive :: bool
  pending :: nat
  downloading :: nat
  isExporting :: bool
  polls :: nat
  downloads :: nat
  alerts :: nat
  consoleErrors :: nat

text \<open>
  What the event loop can run next: the interval fires (every 1000 ms until it is cleared),
  a pending status call resolves with a status, a pending status call throws (the request
  fails, or the value it resolves with cannot be read), a pending download resolves or
  throws.
\<close>

datatype Event =
    Tick
  | StatusResolved ExportStatusValue
  | StatusRejected
  | DownloadResolved
  | DownloadRejected

text \<open>The state right after \<^verbatim>\<open>onSuccess\<close>: \<^verbatim>\<open>setIsExporting(true)\<close> and
  \<^verbatim>\<open>setInterval(..., 1000)\<close>.\<close>

definition onSuccess :: Watcher where
  "onSuccess = \<lparr>timerActive = True, pending = 0, downloading = 0, isExporting = True,
                polls = 0, downloads = 0, alerts = 0, consoleErrors = 0\<rparr>"

text \<open>The \<^verbatim>\<open>catch\<close> block.\<close>

definition catchBlock :: "Watcher \<Rightarrow> Watcher" where
  "catchBlock w = w\<lparr>timerActive := False, isExporting := False,
                     consoleErrors := consoleErrors w + 1\<rparr>"

text \<open>
  One event, \<open>None\<close> when it cannot happen in this state (a cleared interval does not
  fire, nothing settles that is not pending). A tick runs the callback up to its first
  \<^verbatim>\<open>await\<close>: it calls \<^verbatim>\<open>getStatus\<close>, whatever is still pending. A resolved status
  runs the rest of the \<^verbatim>\<open>try\<close> block up to the \<^verbatim>\<open>await\<close> of the download.
\<close>

fun step :: "Watcher \<Rightarrow> Event \<Rightarrow> Watcher option" where
  "step w Tick =
     (if timerActive w then Some (w\<lparr>pending := pending w + 1, polls := polls w + 1\<rparr>)
      else None)"
| "step w (StatusResolved st) =
     (if pending w = 0 then None
      else if st = COMPLETED then
        Some (w\<lparr>pending := pending w - 1, timerActive := False, isExporting := False,
                 downloads := downloads w + 1, downloading := downloading w + 1\<rparr>)
      else if st = FAILED then
        Some (w\<lparr>pending := pending w - 1, timerActive := False, isExporting := False,
                 alerts := alerts w + 1\<rparr>)
      else Some (w\<lparr>pending := pending w - 1\<rparr>))"
| "step w StatusRejected =
     (if pending w = 0 then None else Some (catchBlock (w\<lparr>pending := pending w - 1\<rparr>)))"
| "step w DownloadResolved =
     (if downloading w = 0 then None else Some (w\<lparr>downloading := downloading w - 1\<rparr>))"
| "step w DownloadRejected =
     (if downloading w = 0 then None
      else Some (catchBlock (w\<lparr>downloading := downloading w - 1\<rparr>)))"

text \<open>A schedule of events, run from a state; \<open>None\<close> when some event of it cannot
  happen.\<close>

fun run :: "Watcher \<Rightarrow> Event list \<Rightarrow> Watcher option" where
  "run w [] = Some w"
| "run w (e # es) = (case step w e of None \<Rightarrow> None | Some w' \<Rightarrow> run w' es)"

text \<open>A schedule in which every status call settles before the next tick: each tick comes
  when nothing is pending.\<close>

fun spaced :: "Watcher \<Rightarrow> Event list \<Rightarrow> bool" where
  "spaced w [] = True"
| "spaced w (e # es) =
     (case step w e of
        None \<Rightarrow> False
      | Some w' \<Rightarrow> (if e = Tick then pending w = 0 else True) \<and> spaced w' es)"

text \<open>The schedule in which poll after poll is answered before the next tick, with the
  given statuses.\<close>

fun answered :: "ExportStatusValue list \<Rightarrow> Event list" where
  "answered [] = []"
| "answered (st # sts) = Tick # StatusResolved st # answered sts"

text \<open>In a schedule where no two status calls overlap, this holds of every state: at most
  one call is pending, at most one download was started, none while the interval is still
  active, and nothing is pending once it is cleared.\<close>

definition once :: "Watcher \<Rightarrow> bool" where
  "once w = (pending w \<le> 1 \<and> downloads w \<le> 1 \<and> downloading w \<le> downloads w \<and>
     (if timerActive w then downloads w = 0 else pending w = 0))"

section \<open>Concrete inputs\<close>

definition plainRequest :: RequestInit where
  "plainRequest = \<lparr>http_method = None, body = None, headers = None\<rparr>"

definition binaryRequest :: RequestInit where
  "binaryRequest = \<lparr>http_method = None, body = None,
     headers = Some [''Accept'' \<mapsto> ''application/octet-stream'']\<rparr>"

text \<open>A network that answers every request with the given response.\<close>

definition answering :: "Response \<Rightarrow> string \<Rightarrow> RequestInit \<Rightarrow> error + Response" where
  "answering response url init = Inr response"

definition noUpdate :: UpdateTaskData where
  "noUpdate = \<lparr>upd_title = None, upd_description = None, upd_status = None,
                upd_priority = None, upd_assignedTo = None, upd_dueDate = None\<rparr>"

definition exampleTask :: "string \<Rightarrow> string \<Rightarrow> Task" where
  "exampleTask tid name =
     \<lparr>task_id = tid, projectId = ''p1'', title = Val name, description = Null,
        status = Val TODO, priority = Val MEDIUM, assignedTo = Null, dueDate = Null,
        createdAt = ''2024-01-01'', assignee = None\<rparr>"

definition exampleProject :: "Task list \<Rightarrow> ProjectDetail" where
  "exampleProject ts =
     \<lparr>project_id = ''p1'', project_name = ''Alpha'', project_description = None,
        ownerId = ''u1'', project_createdAt = ''2024-01-01'', tasks = ts\<rparr>"

text \<open>A cache that holds project \<open>p1\<close> with two tasks.\<close>

definition exampleCache :: "(QueryKey, ProjectDetail) QueryCache" where
  "exampleCache =
     [projectKey (Some ''p1'') \<mapsto>
        \<lparr>data = Some (exampleProject [exampleTask ''t1'' ''Write'', exampleTask ''t2'' ''Test'']),
           isInvalidated = False\<rparr>]"

text \<open>\<^verbatim>\<open>handleStatusChange('t1', 'DONE')\<close> and an edit of the title of \<open>t2\<close>.\<close>

definition markDone :: UpdateVars where
  "markDone = \<lparr>taskId = ''t1'', update = noUpdate\<lparr>upd_status := Some (Val DONE)\<rparr>\<rparr>"

definition retitle :: UpdateVars where
  "retitle = \<lparr>taskId = ''t2'', update = noUpdate\<lparr>upd_title := Some (Val ''Review'')\<rparr>\<rparr>"

text \<open>\<^verbatim>\<open>handleEditSave('t2')\<close> with the title \<open>Review\<close>, an empty description field
  (so \<^verbatim>\<open>description: undefined\<close>) and the priority \<open>HIGH\<close>.\<close>

definition editSave :: UpdateVars where
  "editSave = \<lparr>taskId = ''t2'',
      update = noUpdate\<lparr>upd_title := Some (Val ''Review''), upd_description := Some Undefined,
                         upd_priority := Some (Val HIGH)\<rparr>\<rparr>"

text \<open>A response with a non-success status and the given parsed body.\<close>

definition failing :: "json option \<Rightarrow> Response" where
  "failing b = \<lparr>ok = False, json_body = b, blob_body = []\<rparr>"

section \<open>Properties of the API client\<close>

text \<open>
  C9. A request whose \<^verbatim>\<open>Accept\<close> header is \<^verbatim>\<open>application/octet-stream\<close> resolves
  with the raw body as a blob whatever the status of the response is: the \<^verbatim>\<open>ok\<close> flag
  is never read on this path, so a non-success status raises no error.
\<close>

theorem binary_request_ignores_status:
  assumes "fetch (API_BASE_URL @ endpoint)
             (options\<lparr>headers := Some (requestHeaders token options)\<rparr>) = Inr response"
    and "headers options = Some h"
    and "h ''Accept'' = Some ''application/octet-stream''"
  shows "apiRequest fetch token endpoint options = Inr (Blob (blob_body response))"
  using assms by (simp add: apiRequest_def acceptsOctetStream_def)

text \<open>A 404 with an error envelope, asked for as a binary: the caller gets the body.\<close>

theorem binary_request_ignores_status_witness:
  "apiRequest (answering \<lparr>ok = False, json_body = Some (ApiError ''NOT_FOUND'' ''Export not found''),
                           blob_body = ''{}''\<rparr>)
     (Some ''t'') ''/exports/7/download'' binaryRequest = Inr (Blob ''{}'')"
  using binary_request_ignores_status
    [where fetch = "answering \<lparr>ok = False,
                      json_body = Some (ApiError ''NOT_FOUND'' ''Export not found''),
                      blob_body = ''{}''\<rparr>"
       and endpoint = "''/exports/7/download''" and options = binaryRequest
       and token = "Some ''t''"
       and response = "\<lparr>ok = False, json_body = Some (ApiError ''NOT_FOUND'' ''Export not found''),
                        blob_body = ''{}''\<rparr>"
       and h = "[''Accept'' \<mapsto> ''application/octet-stream'']"]
  by (simp add: answering_def binaryRequest_def)

lemma truthy_Some:
  "truthy (Some m) \<longleftrightarrow> \<not> (m = JNull \<or> m = JBool False \<or> m = JNum 0 \<or> m = JStr [])"
  by (cases m) auto

lemma requestError_shape:
  "d \<noteq> JNull \<Longrightarrow>
   (case getProp d ''error'' of
      Inl e \<Rightarrow> Inl e
    | Inr err \<Rightarrow> Inl (Error (orElse (getPropOpt err ''message'') ''Request failed''))) =
   (Inl (Error
      (case d of
         JObj kvs \<Rightarrow>
           (case map_of kvs ''error'' of
              Some (JObj evs) \<Rightarrow>
                (case map_of evs ''message'' of
                   Some m \<Rightarrow>
                     if m = JNull \<or> m = JBool False \<or> m = JNum 0 \<or> m = JStr []
                     then JStr ''Request failed'' else m
                 | None \<Rightarrow> JStr ''Request failed'')
            | _ \<Rightarrow> JStr ''Request failed'')
       | _ \<Rightarrow> JStr ''Request failed'')) :: error + payload)"
  by (cases d) (auto simp: orElse_def truthy_Some split: option.splits json.splits)

lemma answering_any: "answering r url init = Inr r"
  by (simp add: answering_def)

lemma plainRequest_not_binary: "\<not> acceptsOctetStream plainRequest"
  by (simp add: acceptsOctetStream_def plainRequest_def)

lemma failing_not_ok: "\<not> ok (failing b)"
  by (simp add: failing_def)

text \<open>
  C7, as the code has it. On a non-success status of a request that is not binary, what
  the client throws is decided by the parsed body alone, for every body:
  \<^item> a body that is not JSON: the parser's \<^verbatim>\<open>SyntaxError\<close>;
  \<^item> the body \<^verbatim>\<open>null\<close>: the \<^verbatim>\<open>TypeError\<close> of reading \<^verbatim>\<open>data.error\<close>;
  \<^item> any other body: an \<^verbatim>\<open>Error\<close> made from \<^verbatim>\<open>error.message\<close> when the body is an
    object whose \<^verbatim>\<open>error\<close> is an object with a truthy \<^verbatim>\<open>message\<close>, and from
    \<^verbatim>\<open>'Request failed'\<close> in every other case (body not an object, no \<^verbatim>\<open>error\<close>
    object, no message, or a message that is \<^verbatim>\<open>null\<close>, \<^verbatim>\<open>false\<close>, \<^verbatim>\<open>0\<close> or
    empty).
  For the server's envelope \<^verbatim>\<open>{ error: { code, message } }\<close> that is
  \<^verbatim>\<open>Error(message)\<close>, or the generic message when the message is empty, whatever the
  code is: the error carries nothing of the code.
\<close>

theorem request_error_carries_message:
  assumes "fetch (API_BASE_URL @ endpoint)
             (options\<lparr>headers := Some (requestHeaders token options)\<rparr>) = Inr response"
    and "\<not> acceptsOctetStream options"
    and "\<not> ok response"
  shows "(json_body response = None \<longrightarrow>
            apiRequest fetch token endpoint options = Inl SyntaxError)
       \<and> (json_body response = Some JNull \<longrightarrow>
            apiRequest fetch token endpoint options = Inl TypeError)
       \<and> (json_body response = Some d \<and> d \<noteq> JNull \<longrightarrow>
            apiRequest fetch token endpoint options =
              Inl (Error
                (case d of
                   JObj kvs \<Rightarrow>
                     (case map_of kvs ''error'' of
                        Some (JObj evs) \<Rightarrow>
                          (case map_of evs ''message'' of
                             Some m \<Rightarrow>
                               if m = JNull \<or> m = JBool False \<or> m = JNum 0 \<or> m = JStr []
                               then JStr ''Request failed'' else m
                           | None \<Rightarrow> JStr ''Request failed'')
                      | _ \<Rightarrow> JStr ''Request failed'')
                 | _ \<Rightarrow> JStr ''Request failed'')))
       \<and> (json_body response = Some (ApiError code message) \<longrightarrow>
            apiRequest fetch token endpoint options =
              Inl (Error (JStr (if message = [] then ''Request failed'' else message))))"
proof -
  have r: "apiRequest fetch token endpoint options =
             (case json_body response of
                None \<Rightarrow> Inl SyntaxError
              | Some parsed \<Rightarrow>
                  (case getProp parsed ''error'' of
                     Inl e \<Rightarrow> Inl e
                   | Inr err \<Rightarrow>
                       Inl (Error (orElse (getPropOpt err ''message'') ''Request failed''))))"
    using assms by (simp add: apiRequest_def split: option.splits)
  have 1: "json_body response = None \<longrightarrow>
             apiRequest fetch token endpoint options = Inl SyntaxError"
    by (simp add: r)
  have 2: "json_body response = Some JNull \<longrightarrow>
             apiRequest fetch token endpoint options = Inl TypeError"
    by (simp add: r)
  have 3: "json_body response = Some d \<and> d \<noteq> JNull \<longrightarrow>
            apiRequest fetch token endpoint options =
              Inl (Error
                (case d of
                   JObj kvs \<Rightarrow>
                     (case map_of kvs ''error'' of
                        Some (JObj evs) \<Rightarrow>
                          (case map_of evs ''message'' of
                             Some m \<Rightarrow>
                               if m = JNull \<or> m = JBool False \<or> m = JNum 0 \<or> m = JStr []
                               then JStr ''Request failed'' else m
                           | None \<Rightarrow> JStr ''Request failed'')
                      | _ \<Rightarrow> JStr ''Request failed'')
                 | _ \<Rightarrow> JStr ''Request failed''))"
    using requestError_shape [of d] by (simp add: r)
  have 4: "json_body response = Some (ApiError code message) \<longrightarrow>
            apiRequest fetch token endpoint options =
              Inl (Error (JStr (if message = [] then ''Request failed'' else message)))"
    by (simp add: r ApiError_def orElse_def)
  from 1 2 3 4 show ?thesis by blast
qed

text \<open>Six 404 responses: a body that is not JSON, \<^verbatim>\<open>null\<close>, an envelope without a
  code, an empty array, the server's envelope, and the envelope with an empty message.\<close>

theorem request_error_carries_message_witness:
  "apiRequest (answering (failing None)) None ''/tasks/1'' plainRequest = Inl SyntaxError
   \<and> apiRequest (answering (failing (Some JNull))) None ''/tasks/1'' plainRequest = Inl TypeError
   \<and> apiRequest (answering (failing (Some (JObj [(''error'', JObj [(''message'', JStr ''boom'')])]))))
        None ''/tasks/1'' plainRequest = Inl (Error (JStr ''boom''))
   \<and> apiRequest (answering (failing (Some (JArr [])))) None ''/tasks/1'' plainRequest
        = Inl (Error (JStr ''Request failed''))
   \<and> apiRequest (answering (failing (Some (ApiError ''NOT_FOUND'' ''No such task''))))
        None ''/tasks/1'' plainRequest = Inl (Error (JStr ''No such task''))
   \<and> apiRequest (answering (failing (Some (ApiError ''NOT_FOUND'' [])))) None ''/tasks/1'' plainRequest
        = Inl (Error (JStr ''Request failed''))"
proof -
  have 1: "apiRequest (answering (failing None)) None ''/tasks/1'' plainRequest = Inl SyntaxError"
    using request_error_carries_message
      [where fetch = "answering (failing (None))" and response = "failing (None)"
         and options = plainRequest and endpoint = "''/tasks/1''" and token = None,
       OF answering_any plainRequest_not_binary failing_not_ok]
    by (simp add: failing_def)
  have 2: "apiRequest (answering (failing (Some JNull))) None ''/tasks/1'' plainRequest
             = Inl TypeError"
    using request_error_carries_message
      [where fetch = "answering (failing (Some JNull))" and response = "failing (Some JNull)"
         and options = plainRequest and endpoint = "''/tasks/1''" and token = None,
       OF answering_any plainRequest_not_binary failing_not_ok]
    by (simp add: failing_def)
  have 3: "apiRequest
             (answering (failing (Some (JObj [(''error'', JObj [(''message'', JStr ''boom'')])]))))
             None ''/tasks/1'' plainRequest = Inl (Error (JStr ''boom''))"
    using request_error_carries_message
      [where fetch = "answering (failing (Some (JObj [(''error'', JObj [(''message'', JStr ''boom'')])])))" and response = "failing (Some (JObj [(''error'', JObj [(''message'', JStr ''boom'')])]))"
         and options = plainRequest and endpoint = "''/tasks/1''" and token = None and d = "JObj [(''error'', JObj [(''message'', JStr ''boom'')])]",
       OF answering_any plainRequest_not_binary failing_not_ok]
    by (simp add: failing_def)
  have 4: "apiRequest (answering (failing (Some (JArr [])))) None ''/tasks/1'' plainRequest
             = Inl (Error (JStr ''Request failed''))"
    using request_error_carries_message
      [where fetch = "answering (failing (Some (JArr [])))" and response = "failing (Some (JArr []))"
         and options = plainRequest and endpoint = "''/tasks/1''" and token = None and d = "JArr []",
       OF answering_any plainRequest_not_binary failing_not_ok]
    by (simp add: failing_def)
  have 5: "apiRequest (answering (failing (Some (ApiError ''NOT_FOUND'' ''No such task''))))
             None ''/tasks/1'' plainRequest = Inl (Error (JStr ''No such task''))"
    using request_error_carries_message
      [where fetch = "answering (failing (Some (ApiError ''NOT_FOUND'' ''No such task'')))" and response = "failing (Some (ApiError ''NOT_FOUND'' ''No such task''))"
         and options = plainRequest and endpoint = "''/tasks/1''" and token = None and code = "''NOT_FOUND''" and message = "''No such task''",
       OF answering_any plainRequest_not_binary failing_not_ok]
    by (simp add: failing_def)
  have 6: "apiRequest (answering (failing (Some (ApiError ''NOT_FOUND'' [])))) None ''/tasks/1''
             plainRequest = Inl (Error (JStr ''Request failed''))"
    using request_error_carries_message
      [where fetch = "answering (failing (Some (ApiError ''NOT_FOUND'' [])))" and response = "failing (Some (ApiError ''NOT_FOUND'' []))"
         and options = plainRequest and endpoint = "''/tasks/1''" and token = None and code = "''NOT_FOUND''" and message = "[]",
       OF answering_any plainRequest_not_binary failing_not_ok]
    by (simp add: failing_def)
  from 1 2 3 4 5 6 show ?thesis by blast
qed

text \<open>
  Against C7 as stated: two 404 responses that differ in the code only give the same error,
  so the error does not carry the code; and a body that is not JSON gives the parser's
  \<^verbatim>\<open>SyntaxError\<close>, not the generic message.
\<close>

theorem request_error_drops_code:
  "apiRequest (answering \<lparr>ok = False, json_body = Some (ApiError ''NOT_FOUND'' ''No such task''),
                           blob_body = []\<rparr>) None ''/tasks/1'' plainRequest
     = Inl (Error (JStr ''No such task''))
   \<and> apiRequest (answering \<lparr>ok = False, json_body = Some (ApiError ''FORBIDDEN'' ''No such task''),
                           blob_body = []\<rparr>) None ''/tasks/1'' plainRequest
     = Inl (Error (JStr ''No such task''))
   \<and> apiRequest (answering \<lparr>ok = False, json_body = None, blob_body = ''<html>Bad Gateway</html>''\<rparr>)
        None ''/tasks/1'' plainRequest
     = Inl SyntaxError"
  by (simp add: apiRequest_def answering_def plainRequest_def acceptsOctetStream_def ApiError_def
      orElse_def)

section \<open>Properties of the task update mutation\<close>

lemma getQueryData_setQueryData:
  "getQueryData (setQueryData cache key updater) key =
     (case updater (getQueryData cache key) of None \<Rightarrow> getQueryData cache key | Some v \<Rightarrow> Some v)"
  by (simp add: getQueryData_def setQueryData_def split: option.splits)

lemma getQueryData_invalidateQueries:
  "getQueryData (invalidateQueries cache key) key' = getQueryData cache key'"
  by (simp add: getQueryData_def invalidateQueries_def split: option.splits)

lemma onMutate_data:
  "getQueryData (fst (onMutate pid cache vars)) (projectKey pid) =
     patchProject (taskId vars) (update vars) (getQueryData cache (projectKey pid))"
  by (simp add: onMutate_def cancelQueries_def getQueryData_setQueryData patchProject_def
      split: option.splits)

lemma onMutate_snapshot:
  "snd (onMutate pid cache vars) = \<lparr>previousProject = getQueryData cache (projectKey pid)\<rparr>"
  by (simp add: onMutate_def cancelQueries_def)

lemma onSettled_data: "getQueryData (onSettled pid cache) key = getQueryData cache key"
  by (simp add: onSettled_def getQueryData_invalidateQueries)

lemma onError_data:
  "getQueryData (onError pid cache (Some \<lparr>previousProject = Some p\<rparr>)) (projectKey pid) = Some p"
  by (simp add: onError_def getQueryData_setQueryData)

text \<open>The spread gives a member the update's value exactly when the update has the key.\<close>

lemma spreadTask_status:
  "status (spreadTask task d) = (case upd_status d of None \<Rightarrow> status task | Some v \<Rightarrow> v)"
  by (simp add: spreadTask_def spreadProp_def)

lemma spreadTask_task_id: "task_id (spreadTask task d) = task_id task"
  by (simp add: spreadTask_def)

lemma exampleCache_data:
  "getQueryData exampleCache (projectKey (Some ''p1'')) =
     Some (exampleProject [exampleTask ''t1'' ''Write'', exampleTask ''t2'' ''Test''])"
  by (simp add: exampleCache_def getQueryData_def)

lemma patch_markDone:
  "patchProject (taskId markDone) (update markDone)
     (Some (exampleProject [exampleTask ''t1'' ''Write'', exampleTask ''t2'' ''Test''])) =
   Some (exampleProject [(exampleTask ''t1'' ''Write'')\<lparr>status := Val DONE\<rparr>,
                         exampleTask ''t2'' ''Test''])"
  by (simp add: patchProject_def exampleProject_def exampleTask_def markDone_def noUpdate_def
      spreadTask_def spreadProp_def)

lemma patch_retitle:
  "patchProject (taskId retitle) (update retitle)
     (Some (exampleProject [(exampleTask ''t1'' ''Write'')\<lparr>status := Val DONE\<rparr>,
                            exampleTask ''t2'' ''Test''])) =
   Some (exampleProject [(exampleTask ''t1'' ''Write'')\<lparr>status := Val DONE\<rparr>,
                         exampleTask ''t2'' ''Review''])"
  by (simp add: patchProject_def exampleProject_def exampleTask_def retitle_def noUpdate_def
      spreadTask_def spreadProp_def)

text \<open>
  C5. When a project is cached under the key, a read of the key right after
  \<^verbatim>\<open>onMutate\<close> (the server call has not been made yet) gives the patched project: in
  every task with the id of the update, each of \<^verbatim>\<open>title\<close>, \<^verbatim>\<open>description\<close>,
  \<^verbatim>\<open>status\<close>, \<^verbatim>\<open>priority\<close>, \<^verbatim>\<open>assignedTo\<close> and \<^verbatim>\<open>dueDate\<close> has the
  update's value when the update has that key and the task's value otherwise; the task's
  other members, the other tasks, their order and the project's own members are as before.
  The context returned holds the project of before the patch.
\<close>

theorem optimistic_write_then_read:
  assumes "getQueryData cache (projectKey pid) = Some p"
  shows "getQueryData (fst (onMutate pid cache vars)) (projectKey pid) =
           Some (p\<lparr>tasks :=
             map (\<lambda>task.
                    if task_id task = taskId vars
                    then task\<lparr>
                      title := (case upd_title (update vars) of
                                  None \<Rightarrow> title task | Some v \<Rightarrow> v),
                      description := (case upd_description (update vars) of
                                        None \<Rightarrow> description task | Some v \<Rightarrow> v),
                      status := (case upd_status (update vars) of
                                   None \<Rightarrow> status task | Some v \<Rightarrow> v),
                      priority := (case upd_priority (update vars) of
                                     None \<Rightarrow> priority task | Some v \<Rightarrow> v),
                      assignedTo := (case upd_assignedTo (update vars) of
                                       None \<Rightarrow> assignedTo task | Some v \<Rightarrow> v),
                      dueDate := (case upd_dueDate (update vars) of
                                    None \<Rightarrow> dueDate task | Some v \<Rightarrow> v)\<rparr>
                    else task)
                 (tasks p)\<rparr>)
       \<and> snd (onMutate pid cache vars) = \<lparr>previousProject = Some p\<rparr>"
  using assms
  by (simp add: onMutate_data onMutate_snapshot patchProject_def spreadTask_def spreadProp_def)

text \<open>A status change of \<open>t1\<close>, and an edit of \<open>t2\<close> that sets the title and the
  priority and leaves the description \<^verbatim>\<open>undefined\<close>.\<close>

theorem optimistic_write_then_read_witness:
  "getQueryData (fst (onMutate (Some ''p1'') exampleCache markDone)) (projectKey (Some ''p1'')) =
     Some \<lparr>project_id = ''p1'', project_name = ''Alpha'', project_description = None,
        ownerId = ''u1'', project_createdAt = ''2024-01-01'',
        tasks = [\<lparr>task_id = ''t1'', projectId = ''p1'', title = Val ''Write'', description = Null,
                   status = Val DONE, priority = Val MEDIUM, assignedTo = Null, dueDate = Null,
                   createdAt = ''2024-01-01'', assignee = None\<rparr>,
                 \<lparr>task_id = ''t2'', projectId = ''p1'', title = Val ''Test'', description = Null,
                   status = Val TODO, priority = Val MEDIUM, assignedTo = Null, dueDate = Null,
                   createdAt = ''2024-01-01'', assignee = None\<rparr>]\<rparr>
   \<and> getQueryData (fst (onMutate (Some ''p1'') exampleCache editSave)) (projectKey (Some ''p1'')) =
     Some \<lparr>project_id = ''p1'', project_name = ''Alpha'', project_description = None,
        ownerId = ''u1'', project_createdAt = ''2024-01-01'',
        tasks = [\<lparr>task_id = ''t1'', projectId = ''p1'', title = Val ''Write'', description = Null,
                   status = Val TODO, priority = Val MEDIUM, assignedTo = Null, dueDate = Null,
                   createdAt = ''2024-01-01'', assignee = None\<rparr>,
                 \<lparr>task_id = ''t2'', projectId = ''p1'', title = Val ''Review'',
                   description = Undefined, status = Val TODO, priority = Val HIGH,
                   assignedTo = Null, dueDate = Null, createdAt = ''2024-01-01'',
                   assignee = None\<rparr>]\<rparr>
   \<and> snd (onMutate (Some ''p1'') exampleCache markDone) =
       \<lparr>previousProject =
          Some (exampleProject [exampleTask ''t1'' ''Write'', exampleTask ''t2'' ''Test''])\<rparr>"
proof -
  note t = optimistic_write_then_read [OF exampleCache_data]
  have 1: "getQueryData (fst (onMutate (Some ''p1'') exampleCache markDone))
             (projectKey (Some ''p1'')) =
     Some \<lparr>project_id = ''p1'', project_name = ''Alpha'', project_description = None,
        ownerId = ''u1'', project_createdAt = ''2024-01-01'',
        tasks = [\<lparr>task_id = ''t1'', projectId = ''p1'', title = Val ''Write'', description = Null,
                   status = Val DONE, priority = Val MEDIUM, assignedTo = Null, dueDate = Null,
                   createdAt = ''2024-01-01'', assignee = None\<rparr>,
                 \<lparr>task_id = ''t2'', projectId = ''p1'', title = Val ''Test'', description = Null,
                   status = Val TODO, priority = Val MEDIUM, assignedTo = Null, dueDate = Null,
                   createdAt = ''2024-01-01'', assignee = None\<rparr>]\<rparr>"
    using t [of markDone]
    by (simp add: exampleProject_def exampleTask_def markDone_def noUpdate_def)
  have 2: "getQueryData (fst (onMutate (Some ''p1'') exampleCache editSave))
             (projectKey (Some ''p1'')) =
     Some \<lparr>project_id = ''p1'', project_name = ''Alpha'', project_description = None,
        ownerId = ''u1'', project_createdAt = ''2024-01-01'',
        tasks = [\<lparr>task_id = ''t1'', projectId = ''p1'', title = Val ''Write'', description = Null,
                   status = Val TODO, priority = Val MEDIUM, assignedTo = Null, dueDate = Null,
                   createdAt = ''2024-01-01'', assignee = None\<rparr>,
                 \<lparr>task_id = ''t2'', projectId = ''p1'', title = Val ''Review'',
                   description = Undefined, status = Val TODO, priority = Val HIGH,
                   assignedTo = Null, dueDate = Null, createdAt = ''2024-01-01'',
                   assignee = None\<rparr>]\<rparr>"
    using t [of editSave]
    by (simp add: exampleProject_def exampleTask_def editSave_def noUpdate_def)
  have 3: "snd (onMutate (Some ''p1'') exampleCache markDone) =
       \<lparr>previousProject =
          Some (exampleProject [exampleTask ''t1'' ''Write'', exampleTask ''t2'' ''Test''])\<rparr>"
    using t [of markDone] by simp
  from 1 2 3 show ?thesis by blast
qed

text \<open>
  C6. \<^verbatim>\<open>onSettled\<close> leaves the project's query invalidated with its data kept, in any
  state of the cache; and a whole mutation, whether the server call succeeded or failed
  (with or without a rollback), ends with the project's query invalidated. The query is
  absent afterwards only when it was absent before, where nothing is cached and the next
  read has to load.
\<close>

theorem settled_invalidates:
  "(case onSettled pid cache (projectKey pid) of
      None \<Rightarrow> cache (projectKey pid) = None
    | Some q \<Rightarrow> isInvalidated q \<and> data q = getQueryData cache (projectKey pid))
   \<and> (case runUpdateTask pid cache vars callFails (projectKey pid) of
      None \<Rightarrow> cache (projectKey pid) = None
    | Some q \<Rightarrow> isInvalidated q)"
  by (auto simp: onSettled_def invalidateQueries_def runUpdateTask_def onMutate_def onError_def
      setQueryData_def getQueryData_def cancelQueries_def patchProject_def
      split: option.splits if_splits)

text \<open>
  C10. When nothing is cached under the project's key, \<^verbatim>\<open>onMutate\<close> leaves the cache as
  it is and returns an empty snapshot, \<^verbatim>\<open>onError\<close> with that context leaves the cache
  as it is, and after the whole mutation there is still nothing cached. No step of it reads
  a member of the absent project.
\<close>

theorem empty_cache_cycle_is_noop:
  assumes "getQueryData cache (projectKey pid) = None"
  shows "onMutate pid cache vars = (cache, \<lparr>previousProject = None\<rparr>)
       \<and> onError pid (fst (onMutate pid cache vars)) (Some (snd (onMutate pid cache vars))) = cache
       \<and> getQueryData (runUpdateTask pid cache vars callFails) (projectKey pid) = None"
  using assms
  by (simp add: onMutate_def cancelQueries_def setQueryData_def patchProject_def onError_def
      runUpdateTask_def onSettled_def getQueryData_invalidateQueries)

theorem empty_cache_cycle_is_noop_witness:
  "onMutate (Some ''p1'') Map.empty markDone = (Map.empty, \<lparr>previousProject = None\<rparr>)
   \<and> onError (Some ''p1'') (fst (onMutate (Some ''p1'') Map.empty markDone))
        (Some (snd (onMutate (Some ''p1'') Map.empty markDone))) = Map.empty
   \<and> getQueryData (runUpdateTask (Some ''p1'') Map.empty markDone True)
        (projectKey (Some ''p1'')) = None"
proof -
  have "getQueryData (Map.empty :: (QueryKey, ProjectDetail) QueryCache)
          (projectKey (Some ''p1'')) = None"
    by (simp add: getQueryData_def)
  then show ?thesis
    by (rule empty_cache_cycle_is_noop)
qed

text \<open>
  C3, as the code has it. The context of \<^verbatim>\<open>onMutate\<close> holds the project that was cached
  before the patch, and \<^verbatim>\<open>onError\<close> writes that project back whatever the cache holds
  by then (\<open>later\<close> is any cache): the rollback has no test for a newer write.
\<close>

theorem rollback_is_unconditional:
  assumes "getQueryData cache (projectKey pid) = Some p"
  shows "snd (onMutate pid cache vars) = \<lparr>previousProject = Some p\<rparr>
       \<and> getQueryData (onError pid later (Some (snd (onMutate pid cache vars)))) (projectKey pid)
           = Some p"
  using assms by (simp add: onMutate_snapshot onError_data)

theorem rollback_is_unconditional_witness:
  "snd (onMutate (Some ''p1'') exampleCache markDone) =
     \<lparr>previousProject =
        Some (exampleProject [exampleTask ''t1'' ''Write'', exampleTask ''t2'' ''Test''])\<rparr>
   \<and> getQueryData
       (onError (Some ''p1'')
          (fst (onMutate (Some ''p1'') (fst (onMutate (Some ''p1'') exampleCache markDone)) retitle))
          (Some (snd (onMutate (Some ''p1'') exampleCache markDone))))
       (projectKey (Some ''p1''))
     = Some (exampleProject [exampleTask ''t1'' ''Write'', exampleTask ''t2'' ''Test''])"
  by (rule rollback_is_unconditional [OF exampleCache_data])

text \<open>
  Against C3 as stated: the first mutation marks \<open>t1\<close> done, the second renames \<open>t2\<close>;
  the second one's call succeeds and settles, and the cache holds both changes. Then the
  first one's call fails: its rollback writes the project of before both, and the rename
  of the later, successful mutation is gone from the cache.
\<close>

theorem rollback_overwrites_later_write:
  "getQueryData
     (onSettled (Some ''p1'')
        (fst (onMutate (Some ''p1'') (fst (onMutate (Some ''p1'') exampleCache markDone)) retitle)))
     (projectKey (Some ''p1''))
   = Some (exampleProject [(exampleTask ''t1'' ''Write'')\<lparr>status := Val DONE\<rparr>,
                           exampleTask ''t2'' ''Review''])
   \<and> getQueryData
     (onError (Some ''p1'')
        (onSettled (Some ''p1'')
           (fst (onMutate (Some ''p1'') (fst (onMutate (Some ''p1'') exampleCache markDone)) retitle)))
        (Some (snd (onMutate (Some ''p1'') exampleCache markDone))))
     (projectKey (Some ''p1''))
   = Some (exampleProject [exampleTask ''t1'' ''Write'', exampleTask ''t2'' ''Test''])"
  by (simp add: onSettled_data onMutate_data onMutate_snapshot onError_data exampleCache_data
      patch_markDone patch_retitle)

section \<open>Properties of the export watcher\<close>

text \<open>Once the interval is cleared it stays cleared, and no further status call is made.\<close>

lemma step_cleared:
  "\<not> timerActive w \<Longrightarrow> step w e = Some w' \<Longrightarrow> \<not> timerActive w' \<and> polls w' = polls w"
  by (cases e) (auto simp: catchBlock_def split: if_splits)

lemma run_cleared:
  "\<not> timerActive w \<Longrightarrow> run w es = Some w' \<Longrightarrow> \<not> timerActive w' \<and> polls w' = polls w"
proof (induction es arbitrary: w)
  case Nil
  then show ?case by simp
next
  case (Cons e es)
  then obtain w1 where s: "step w e = Some w1" and r: "run w1 es = Some w'"
    by (auto split: option.splits)
  from step_cleared[OF Cons.prems(1) s] Cons.IH[OF _ r] show ?case by simp
qed

lemma spaced_take: "spaced w es \<Longrightarrow> spaced w (take n es)"
  by (induction es arbitrary: w n) (auto simp: take_Cons split: option.splits nat.splits)

lemma spaced_pending:
  "pending w \<le> 1 \<Longrightarrow> spaced w es \<Longrightarrow> run w es = Some w' \<Longrightarrow> pending w' \<le> 1"
proof (induction es arbitrary: w)
  case Nil
  then show ?case by simp
next
  case (Cons e es)
  then obtain w1 where s: "step w e = Some w1" and r: "run w1 es = Some w'"
    and sp: "spaced w1 es" and t: "e = Tick \<Longrightarrow> pending w = 0"
    by (auto split: option.splits if_splits)
  have "pending w1 \<le> 1"
    using s t Cons.prems(1) by (cases e) (auto simp: catchBlock_def split: if_splits)
  from Cons.IH[OF this sp r] show ?case .
qed

text \<open>Where no two status calls overlap, the download is started at most once.\<close>

lemma spaced_once:
  "once w \<Longrightarrow> spaced w es \<Longrightarrow> run w es = Some w' \<Longrightarrow> once w'"
proof (induction es arbitrary: w)
  case Nil
  then show ?case by simp
next
  case (Cons e es)
  then obtain w1 where s: "step w e = Some w1" and r: "run w1 es = Some w'"
    and sp: "spaced w1 es" and t: "e = Tick \<Longrightarrow> pending w = 0"
    by (auto split: option.splits if_splits)
  have "once w1"
    using s t Cons.prems(1) by (cases e) (auto simp: once_def catchBlock_def split: if_splits)
  from Cons.IH[OF this sp r] show ?case .
qed

lemma spaced_downloads:
  "spaced onSuccess es \<Longrightarrow> run onSuccess es = Some w \<Longrightarrow> downloads w \<le> 1"
proof -
  assume "spaced onSuccess es" and "run onSuccess es = Some w"
  moreover have "once onSuccess" by (simp add: once_def onSuccess_def)
  ultimately have "once w" by (rule spaced_once [rotated])
  then show ?thesis by (simp add: once_def)
qed

lemma run_ticks:
  "timerActive w \<Longrightarrow>
   run w (replicate n Tick) = Some (w\<lparr>pending := pending w + n, polls := polls w + n\<rparr>)"
proof (induction n arbitrary: w)
  case 0
  then show ?case by simp
next
  case (Suc n)
  let ?w1 = "w\<lparr>pending := pending w + 1, polls := polls w + 1\<rparr>"
  have "run w (replicate (Suc n) Tick) = run ?w1 (replicate n Tick)"
    using Suc.prems by simp
  also have "\<dots> = Some (?w1\<lparr>pending := pending ?w1 + n, polls := polls ?w1 + n\<rparr>)"
    using Suc.prems by (intro Suc.IH) simp
  finally show ?case by simp
qed

lemma run_answered:
  "set sts \<subseteq> {PENDING, PROCESSING} \<Longrightarrow> timerActive w \<Longrightarrow>
   run w (answered sts) = Some (w\<lparr>polls := polls w + length sts\<rparr>)"
proof (induction sts arbitrary: w)
  case Nil
  then show ?case by simp
next
  case (Cons st sts)
  have st: "st = PENDING \<or> st = PROCESSING" using Cons.prems(1) by auto
  let ?w1 = "w\<lparr>polls := polls w + 1\<rparr>"
  have "run w (answered (st # sts)) = run ?w1 (answered sts)"
    using st Cons.prems(2) by auto
  also have "\<dots> = Some (?w1\<lparr>polls := polls ?w1 + length sts\<rparr>)"
    using Cons.prems by (intro Cons.IH) auto
  finally show ?case by simp
qed

text \<open>
  C1, at the input where the code misses it. Two ticks fire before either status call has
  resolved, and both calls resolve with \<^verbatim>\<open>COMPLETED\<close>: the interval is cleared by the
  first, the second is already in flight and runs the same branch, and
  \<^verbatim>\<open>exportApi.download\<close> is called twice for the one \<^verbatim>\<open>exportId\<close>.
\<close>

theorem overlapping_polls_download_twice:
  "run onSuccess [Tick, Tick, StatusResolved COMPLETED, StatusResolved COMPLETED] =
     Some \<lparr>timerActive = False, pending = 0, downloading = 2, isExporting = False,
           polls = 2, downloads = 2, alerts = 0, consoleErrors = 0\<rparr>"
  by (simp add: onSuccess_def)

lemma bounded_spaced:
  "run w es = Some w' \<Longrightarrow>
   (\<forall>k v. run w (take k es) = Some v \<longrightarrow> pending v \<le> 1) \<Longrightarrow> spaced w es"
proof (induction es arbitrary: w)
  case Nil
  then show ?case by simp
next
  case (Cons e es)
  from Cons.prems(1) obtain w1 where s: "step w e = Some w1" and r: "run w1 es = Some w'"
    by (auto split: option.splits)
  have b: "\<forall>k v. run w1 (take k es) = Some v \<longrightarrow> pending v \<le> 1"
  proof (intro allI impI)
    fix k v assume "run w1 (take k es) = Some v"
    then have "run w (take (Suc k) (e # es)) = Some v" using s by simp
    with Cons.prems(2) show "pending v \<le> 1" by blast
  qed
  have "run w (take 1 (e # es)) = Some w1" using s by simp
  with Cons.prems(2) have p1: "pending w1 \<le> 1" by blast
  have t: "e = Tick \<Longrightarrow> pending w = 0"
    using s p1 by (auto split: if_splits)
  from Cons.IH[OF r b] s t show ?case by simp
qed

text \<open>
  C2, as the code has it. In every state of the watcher, a tick of the interval issues a
  status call as long as the interval has not been cleared, whether or not earlier calls
  have settled, and does nothing once it is cleared; so \<open>n\<close> ticks in a row with no
  answer add \<open>n\<close> pending calls. In a schedule that starts with at most one call pending,
  at most one call is pending at every point (every prefix \<open>take k es\<close>) if and only if
  each call settles before the next tick.
\<close>

theorem polls_on_fixed_interval:
  "step w Tick = (if timerActive w
                  then Some (w\<lparr>pending := pending w + 1, polls := polls w + 1\<rparr>) else None)
   \<and> (timerActive w \<longrightarrow>
        run w (replicate n Tick) = Some (w\<lparr>pending := pending w + n, polls := polls w + n\<rparr>))
   \<and> (pending w \<le> 1 \<and> run w es = Some w' \<longrightarrow>
        (spaced w es \<longleftrightarrow> (\<forall>k v. run w (take k es) = Some v \<longrightarrow> pending v \<le> 1)))"
proof (intro conjI impI)
  show "step w Tick = (if timerActive w
                  then Some (w\<lparr>pending := pending w + 1, polls := polls w + 1\<rparr>) else None)"
    by simp
next
  assume "timerActive w"
  then show "run w (replicate n Tick) =
               Some (w\<lparr>pending := pending w + n, polls := polls w + n\<rparr>)"
    by (rule run_ticks)
next
  assume a: "pending w \<le> 1 \<and> run w es = Some w'"
  show "spaced w es \<longleftrightarrow> (\<forall>k v. run w (take k es) = Some v \<longrightarrow> pending v \<le> 1)"
  proof
    assume sp: "spaced w es"
    show "\<forall>k v. run w (take k es) = Some v \<longrightarrow> pending v \<le> 1"
    proof (intro allI impI)
      fix k v assume r: "run w (take k es) = Some v"
      from sp have "spaced w (take k es)" by (rule spaced_take)
      with a r show "pending v \<le> 1" using spaced_pending by blast
    qed
  next
    assume "\<forall>k v. run w (take k es) = Some v \<longrightarrow> pending v \<le> 1"
    with a show "spaced w es" using bounded_spaced by blast
  qed
qed

text \<open>A tick while a call is pending; three ticks with no answer; a schedule whose polls
  are answered in turn, where never more than one call is pending; and a schedule with two
  ticks before the first answer, where two calls are pending.\<close>

theorem polls_on_fixed_interval_witness:
  "step (onSuccess\<lparr>pending := 1, polls := 1\<rparr>) Tick = Some (onSuccess\<lparr>pending := 2, polls := 2\<rparr>)
   \<and> timerActive onSuccess
   \<and> run onSuccess (replicate 3 Tick) = Some (onSuccess\<lparr>pending := 3, polls := 3\<rparr>)
   \<and> pending onSuccess \<le> 1
   \<and> run onSuccess (answered [PROCESSING, COMPLETED]) =
        Some (onSuccess\<lparr>timerActive := False, isExporting := False, polls := 2, downloads := 1,
                        downloading := 1\<rparr>)
   \<and> spaced onSuccess (answered [PROCESSING, COMPLETED])
   \<and> \<not> (\<exists>k v. run onSuccess (take k (answered [PROCESSING, COMPLETED])) = Some v \<and> 1 < pending v)
   \<and> run onSuccess [Tick, Tick, StatusResolved PROCESSING, StatusResolved PROCESSING] =
        Some (onSuccess\<lparr>polls := 2\<rparr>)
   \<and> \<not> spaced onSuccess [Tick, Tick, StatusResolved PROCESSING, StatusResolved PROCESSING]
   \<and> \<not> (\<forall>k v. run onSuccess
                  (take k [Tick, Tick, StatusResolved PROCESSING, StatusResolved PROCESSING])
               = Some v \<longrightarrow> pending v \<le> 1)"
proof -
  have t: "timerActive onSuccess" and p: "pending onSuccess \<le> 1"
    by (simp_all add: onSuccess_def)
  have r1: "run onSuccess (answered [PROCESSING, COMPLETED]) =
        Some (onSuccess\<lparr>timerActive := False, isExporting := False, polls := 2, downloads := 1,
                        downloading := 1\<rparr>)"
    by (simp add: onSuccess_def)
  have s1: "spaced onSuccess (answered [PROCESSING, COMPLETED])"
    by (simp add: onSuccess_def)
  have r2: "run onSuccess [Tick, Tick, StatusResolved PROCESSING, StatusResolved PROCESSING] =
        Some (onSuccess\<lparr>polls := 2\<rparr>)"
    by (simp add: onSuccess_def)
  have s2: "\<not> spaced onSuccess [Tick, Tick, StatusResolved PROCESSING, StatusResolved PROCESSING]"
    by (simp add: onSuccess_def)
  note a = polls_on_fixed_interval [of "onSuccess\<lparr>pending := 1, polls := 1\<rparr>"]
  note b = polls_on_fixed_interval [of onSuccess 3 "answered [PROCESSING, COMPLETED]"
      "onSuccess\<lparr>timerActive := False, isExporting := False, polls := 2, downloads := 1,
                        downloading := 1\<rparr>"]
  note c = polls_on_fixed_interval [of onSuccess 3
      "[Tick, Tick, StatusResolved PROCESSING, StatusResolved PROCESSING]"
      "onSuccess\<lparr>polls := 2\<rparr>"]
  have a': "step (onSuccess\<lparr>pending := 1, polls := 1\<rparr>) Tick =
              Some (onSuccess\<lparr>pending := 2, polls := 2\<rparr>)"
    using a by (simp add: onSuccess_def)
  have b1: "run onSuccess (replicate 3 Tick) = Some (onSuccess\<lparr>pending := 3, polls := 3\<rparr>)"
    using b t by (simp add: onSuccess_def)
  have b2: "\<forall>k v. run onSuccess (take k (answered [PROCESSING, COMPLETED])) = Some v
              \<longrightarrow> pending v \<le> 1"
    using b p r1 s1 by blast
  have b3: "\<not> (\<exists>k v. run onSuccess (take k (answered [PROCESSING, COMPLETED])) = Some v
              \<and> 1 < pending v)"
    using b2 by (auto simp: not_less)
  have c2: "\<not> (\<forall>k v. run onSuccess
              (take k [Tick, Tick, StatusResolved PROCESSING, StatusResolved PROCESSING]) = Some v
              \<longrightarrow> pending v \<le> 1)"
    using c p r2 s2 by blast
  from a' b1 b3 c2 t p r1 s1 r2 s2 show ?thesis by blast
qed

text \<open>Against C2 as stated: after two ticks with no answer, two status calls are
  pending.\<close>

theorem two_pending_status_requests:
  "run onSuccess [Tick, Tick] =
     Some \<lparr>timerActive = True, pending = 2, downloading = 0, isExporting = True,
           polls = 2, downloads = 0, alerts = 0, consoleErrors = 0\<rparr>"
  by (simp add: onSuccess_def)

text \<open>
  C4, at the input where the code misses it. However many polls are answered
  \<^verbatim>\<open>PENDING\<close> or \<^verbatim>\<open>PROCESSING\<close>, the interval is still active afterwards and the next
  tick issues one more status call: there is no bound after which the watcher stops. (No
  download is started and nothing is reported, as the claim says.)
\<close>

theorem polling_never_times_out:
  assumes "set sts \<subseteq> {PENDING, PROCESSING}"
  shows "\<exists>w. run onSuccess (answered sts) = Some w \<and> timerActive w \<and> polls w = length sts
           \<and> downloads w = 0 \<and> alerts w = 0 \<and> consoleErrors w = 0
           \<and> step w Tick = Some (w\<lparr>pending := 1, polls := length sts + 1\<rparr>)"
  using run_answered [OF assms, of onSuccess] by (simp add: onSuccess_def)

text \<open>Sixty-one polls, one a second, all answered \<^verbatim>\<open>PROCESSING\<close>: the sixty-second
  poll is issued.\<close>

theorem polling_never_times_out_witness:
  "set (replicate 61 PROCESSING) \<subseteq> {PENDING, PROCESSING}
   \<and> (\<exists>w. run onSuccess (answered (replicate 61 PROCESSING)) = Some w \<and> timerActive w
          \<and> polls w = 61 \<and> downloads w = 0 \<and> alerts w = 0 \<and> consoleErrors w = 0
          \<and> step w Tick = Some (w\<lparr>pending := 1, polls := 62\<rparr>))"
proof -
  have h: "set (replicate 61 PROCESSING) \<subseteq> {PENDING, PROCESSING}" by simp
  from polling_never_times_out [OF h] h show ?thesis by simp
qed

text \<open>
  C8, as the code has it. A status call that throws ends the watch: the interval is
  cleared, so no tick fires and no status call is made in any continuation, and the
  exporting flag is reset. The error goes to the console and nowhere else: no alert is
  shown and no download is started.
\<close>

theorem transport_error_terminal:
  assumes "0 < pending w"
  shows "\<exists>w'. step w StatusRejected = Some w' \<and> \<not> timerActive w' \<and> \<not> isExporting w'
           \<and> step w' Tick = None \<and> polls w' = polls w
           \<and> alerts w' = alerts w \<and> consoleErrors w' = consoleErrors w + 1
           \<and> downloads w' = downloads w
           \<and> (\<forall>es w''. run w' es = Some w'' \<longrightarrow> \<not> timerActive w'' \<and> polls w'' = polls w)"
proof -
  let ?w' = "catchBlock (w\<lparr>pending := pending w - 1\<rparr>)"
  have s: "step w StatusRejected = Some ?w'" using assms by simp
  have c: "\<not> timerActive ?w'" by (simp add: catchBlock_def)
  have p: "polls ?w' = polls w" by (simp add: catchBlock_def)
  have "\<forall>es w''. run ?w' es = Some w'' \<longrightarrow> \<not> timerActive w'' \<and> polls w'' = polls w"
    using run_cleared [OF c] p by auto
  with s c p show ?thesis by (simp add: catchBlock_def)
qed

theorem transport_error_terminal_witness:
  "0 < pending (onSuccess\<lparr>pending := 1, polls := 1\<rparr>)
   \<and> (\<exists>w'. step (onSuccess\<lparr>pending := 1, polls := 1\<rparr>) StatusRejected = Some w'
          \<and> \<not> timerActive w' \<and> \<not> isExporting w' \<and> step w' Tick = None \<and> polls w' = 1
          \<and> alerts w' = 0 \<and> consoleErrors w' = 1 \<and> downloads w' = 0
          \<and> (\<forall>es w''. run w' es = Some w'' \<longrightarrow> \<not> timerActive w'' \<and> polls w'' = 1))"
proof -
  have h: "0 < pending (onSuccess\<lparr>pending := 1, polls := 1\<rparr>)" by simp
  from transport_error_terminal [OF h] h show ?thesis by (simp add: onSuccess_def)
qed

text \<open>Against C8 as stated: a status call that throws leaves one line on the console and
  no alert, a \<^verbatim>\<open>FAILED\<close> status raises one alert and writes nothing to the console.\<close>

theorem transport_error_not_alerted:
  "run onSuccess [Tick, StatusRejected] =
     Some \<lparr>timerActive = False, pending = 0, downloading = 0, isExporting = False,
           polls = 1, downloads = 0, alerts = 0, consoleErrors = 1\<rparr>
   \<and> run onSuccess [Tick, StatusResolved FAILED] =
     Some \<lparr>timerActive = False, pending = 0, downloading = 0, isExporting = False,
           polls = 1, downloads = 0, alerts = 1, consoleErrors = 0\<rparr>"
  by (simp add: onSuccess_def catchBlock_def)

end
